theory Spec2Isabelle
  imports Main
begin

section \<open>JavaScript values and plain objects\<close>

text \<open>
  The controllers of \<^verbatim>\<open>src/controllers/user.controller.ts\<close> handle plain JavaScript
  objects: the user documents of the datastore, the token pair, the payload of a response.
  An object is an association list from property names to values, in insertion order.
\<close>

datatype jsval =
    JUndefined
  | JBoolean bool
  | JString string
  | JArray "jsval list"
  | JObject "(string \<times> jsval) list"

type_synonym obj = "(string \<times> jsval) list"

text \<open>Reading a property, \<^verbatim>\<open>o.k\<close>: \<^verbatim>\<open>undefined\<close> when the object has no such property.\<close>

definition getprop :: "obj \<Rightarrow> string \<Rightarrow> jsval" where
  "getprop ob k = (case map_of ob k of None \<Rightarrow> JUndefined | Some v \<Rightarrow> v)"

text \<open>Whether an object has a property of that name.\<close>

definition has_prop :: "obj \<Rightarrow> string \<Rightarrow> bool" where
  "has_prop ob k = (k \<in> fst ` set ob)"

text \<open>
  Rest destructuring, \<^verbatim>\<open>const { k1: a, k2: b, ...rest } = o\<close>: the rest object holds
  the properties of \<^verbatim>\<open>o\<close> other than the named ones.
\<close>

definition rest_without :: "string list \<Rightarrow> obj \<Rightarrow> obj" where
  "rest_without ks ob = filter (\<lambda>kv. fst kv \<notin> set ks) ob"

section \<open>Errors and responses\<close>

text \<open>
  The error classes of \<^verbatim>\<open>core/ApiError\<close> that the two source files throw, each with
  its message. A handler that throws is a handler that returns \<open>Inl\<close> of the error.
\<close>

datatype ApiError =
    BadRequestError string
  | AuthFailureError string
  | RateLimitError string

record cookie_options =
  httpOnly :: bool
  secure :: bool

datatype cookie_op =
    SetCookie string jsval cookie_options
  | ClearCookie string cookie_options

text \<open>\<^verbatim>\<open>new SuccessResponse(message, data)\<close>.\<close>

datatype SuccessResponse = SuccessResponse string jsval

text \<open>
  What a handler did to the Express response object: the cookie operations, in order, and
  the success response it sent.
\<close>

record res =
  cookies :: "cookie_op list"
  sent :: SuccessResponse

section \<open>The user repository\<close>

text \<open>
  The datastore holds the user documents; every call of the repository is logged, so that
  one can state which lookups a handler reached.
\<close>

datatype repo_call =
    FindByEmail string
  | FindByUsername string
  | FindByEmailOrUsername string
  | Create obj string

record store =
  users :: "obj list"
  calls :: "repo_call list"

text \<open>
  \<^verbatim>\<open>userRepo\<close> (\<^verbatim>\<open>database/repositories/userRepo\<close>) is not among the source
  files. The spec treats it as a datastore with simple operations, and its four functions
  are modelled from that.
\<close>

text \<open>
  Modelled from the spec: \<^verbatim>\<open>userRepo.findByEmail\<close>, missing from the sources, returns
  the first stored user with that email, or nothing.
\<close>

definition findByEmail :: "string \<Rightarrow> store \<Rightarrow> obj option \<times> store" where
  "findByEmail e st =
     (find (\<lambda>u. getprop u ''email'' = JString e) (users st),
      st\<lparr>calls := calls st @ [FindByEmail e]\<rparr>)"

text \<open>
  Modelled from the spec: \<^verbatim>\<open>userRepo.findByUsername\<close>, missing from the sources,
  returns the first stored user with that username, or nothing.
\<close>

definition findByUsername :: "string \<Rightarrow> store \<Rightarrow> obj option \<times> store" where
  "findByUsername n st =
     (find (\<lambda>u. getprop u ''username'' = JString n) (users st),
      st\<lparr>calls := calls st @ [FindByUsername n]\<rparr>)"

text \<open>
  Modelled from the spec: \<^verbatim>\<open>userRepo.findByEmailOrUsername\<close>, missing from the
  sources, resolves an identifier as either an email or a username: it returns the first
  stored user with that email or that username, or nothing.
\<close>

definition findByEmailOrUsername :: "string \<Rightarrow> store \<Rightarrow> obj option \<times> store" where
  "findByEmailOrUsername i st =
     (find (\<lambda>u. getprop u ''email'' = JString i \<or> getprop u ''username'' = JString i) (users st),
      st\<lparr>calls := calls st @ [FindByEmailOrUsername i]\<rparr>)"

text \<open>
  Modelled from the spec: \<^verbatim>\<open>userRepo.create\<close>, missing from the sources, persists
  the user it is given, with its role, and returns the stored user.
\<close>

definition create :: "obj \<Rightarrow> string \<Rightarrow> store \<Rightarrow> obj \<times> store" where
  "create u role st =
     (let created = u @ [(''role'', JString role)]
      in (created, \<lparr>users = users st @ [created], calls = calls st @ [Create u role]\<rparr>))"

section \<open>Binary64 numbers\<close>

text \<open>
  \<^verbatim>\<open>Math.random()\<close> returns a binary64 number, and line 32 multiplies it by 23 in
  binary64 before it takes the floor. A finite binary64 number that is not negative is
  \<open>m * 2 ^ e\<close> for a mantissa \<open>m\<close> below \<open>2 ^ 53\<close> and an exponent \<open>e\<close> from \<open>-1074\<close> to
  \<open>971\<close>.
\<close>

record float64 =
  mant :: nat
  expo :: int

definition is_float64 :: "float64 \<Rightarrow> bool" where
  "is_float64 d = (mant d < 2 ^ 53 \<and> - 1074 \<le> expo d \<and> expo d \<le> 971)"

text \<open>The number is less than one.\<close>

definition below_one :: "float64 \<Rightarrow> bool" where
  "below_one d = (if 0 \<le> expo d then mant d = 0 else mant d < 2 ^ nat (- expo d))"

text \<open>
  Rounding to 53 bits: \<open>excess M\<close> is the number of bits that \<open>M\<close> has beyond 53, and
  \<open>round_even M s\<close> is \<open>M / 2 ^ s\<close> rounded to the nearest integer, a tie going to the even
  one, as binary64 arithmetic rounds.
\<close>

fun excess :: "nat \<Rightarrow> nat" where
  "excess M = (if M < 2 ^ 53 then 0 else Suc (excess (M div 2)))"

declare excess.simps [simp del]

definition round_even :: "nat \<Rightarrow> nat \<Rightarrow> nat" where
  "round_even M s =
     (let q = M div 2 ^ s; r = M mod 2 ^ s
      in if 2 ^ s < 2 * r \<or> (2 * r = 2 ^ s \<and> odd q) then q + 1 else q)"

text \<open>
  The binary64 product \<^verbatim>\<open>d * 23\<close>: the exact product \<open>23 * m * 2 ^ e\<close>, its mantissa
  rounded to 53 bits. (A mantissa that rounds up to \<open>2 ^ 53\<close> is left as it is: the value
  is a power of two, a binary64 number.) The product of a number below one does not
  overflow, and an exact product needs no rounding, also when it is subnormal.
\<close>

definition times23 :: "float64 \<Rightarrow> float64" where
  "times23 d =
     \<lparr>mant = round_even (mant d * 23) (excess (mant d * 23)),
      expo = expo d + int (excess (mant d * 23))\<rparr>"

text \<open>\<^verbatim>\<open>Math.floor\<close>, an integer.\<close>

definition floor64 :: "float64 \<Rightarrow> nat" where
  "floor64 d =
     (if 0 \<le> expo d then mant d * 2 ^ nat (expo d) else mant d div 2 ^ nat (- expo d))"

section \<open>The environment of the handlers\<close>

text \<open>
  What the handlers call outside the two source files is a parameter: the two functions
  of the \<^verbatim>\<open>bcrypt\<close> package, the value that \<^verbatim>\<open>Math.random()\<close> returns in this run,
  \<^verbatim>\<open>createTokens\<close> of \<^verbatim>\<open>auth/authUtils\<close>, \<^verbatim>\<open>filterUserData\<close> of
  \<^verbatim>\<open>helpers/utils\<close>, and the constants \<^verbatim>\<open>RoleCode.USER\<close> and \<^verbatim>\<open>environment\<close>.
  The calls are taken to return; \<^verbatim>\<open>Math.random()\<close> returns a binary64 number that
  is at least 0 and less than 1.
\<close>

record env =
  bcrypt_hash :: "string \<Rightarrow> nat \<Rightarrow> string"
  bcrypt_compare :: "string \<Rightarrow> jsval \<Rightarrow> bool"
  Math_random :: float64
  createTokens :: "obj \<Rightarrow> obj"
  filterUserData :: "obj \<Rightarrow> jsval"
  RoleCode_USER :: string
  environment :: string

section \<open>Printing numbers\<close>

text \<open>
  A template literal \<^verbatim>\<open>`${n}`\<close> prints an integer that is not negative in decimal.
\<close>

definition digit :: "nat \<Rightarrow> char" where
  "digit d = ''0123456789'' ! d"

fun show_nat :: "nat \<Rightarrow> string" where
  "show_nat n = (if n < 10 then [digit n] else show_nat (n div 10) @ [digit (n mod 10)])"

declare show_nat.simps [simp del]

section \<open>signUp\<close>

text \<open>The body of a signup request, \<^verbatim>\<open>const { email, username, password } = req.body\<close>.\<close>

record signup_body =
  email :: string
  username :: string
  password :: string

text \<open>
  Lines 31 to 35 and 43: the avatar number drawn from \<^verbatim>\<open>Math.random()\<close>, its
  two-digit form, and the reference built from it. The floor is an integer below 23, so
  adding 1 to it is exact.
\<close>

definition avatarNumber :: "float64 \<Rightarrow> nat" where
  "avatarNumber r = floor64 (times23 r) + 1"

definition formattedNumber :: "nat \<Rightarrow> string" where
  "formattedNumber n = (if n < 10 then ''0'' @ show_nat n else show_nat n)"

definition avatarUrl :: "float64 \<Rightarrow> string" where
  "avatarUrl r =
     ''https://imageserver-1-466g.onrender.com/static/avatars/avatar''
       @ formattedNumber (avatarNumber r) @ ''.avif''"

definition signUp :: "env \<Rightarrow> signup_body \<Rightarrow> store \<Rightarrow> (ApiError + res) \<times> store" where
  "signUp ev body st =
     (let (existingUserEmail, st1) = findByEmail (email body) st in
      case existingUserEmail of
        Some _ \<Rightarrow> (Inl (BadRequestError ''Email already exists''), st1)
      | None \<Rightarrow>
          (let (existingUserUsername, st2) = findByUsername (username body) st1 in
           case existingUserUsername of
             Some _ \<Rightarrow> (Inl (BadRequestError ''Username already exists''), st2)
           | None \<Rightarrow>
               (let hashedPassword = bcrypt_hash ev (signup_body.password body) 10;
                    (user, st3) =
                      create [(''username'', JString (username body)),
                              (''email'', JString (email body)),
                              (''password'', JString hashedPassword),
                              (''avatarUrl'', JString (avatarUrl (Math_random ev)))]
                        (RoleCode_USER ev) st2;
                    tokens = createTokens ev user;
                    userData = filterUserData ev user
                in (Inr \<lparr>cookies = [],
                         sent = SuccessResponse ''Signup successful''
                           (JObject [(''user'', userData), (''tokens'', JObject tokens)])\<rparr>,
                    st3))))"

section \<open>login\<close>

text \<open>
  The body of a login request, \<^verbatim>\<open>const { userId, password } = req.body\<close>. The fields
  are strings; the password may be absent. \<^verbatim>\<open>!password\<close> holds of an absent password
  and of the empty string.
\<close>

record login_body =
  userId :: string
  password :: "string option"

definition login :: "env \<Rightarrow> login_body \<Rightarrow> store \<Rightarrow> (ApiError + res) \<times> store" where
  "login ev body st =
     (let (user, st1) = findByEmailOrUsername (userId body) st in
      case user of
        None \<Rightarrow> (Inl (BadRequestError ''Invalid email/username''), st1)
      | Some user \<Rightarrow>
          (case login_body.password body of
             None \<Rightarrow> (Inl (BadRequestError ''No credentials provided''), st1)
           | Some pw \<Rightarrow>
               if pw = [] then (Inl (BadRequestError ''No credentials provided''), st1)
               else if \<not> bcrypt_compare ev pw (getprop user ''password'')
               then (Inl (AuthFailureError ''Invalid credentials''), st1)
               else
                 (let filteredUser = rest_without [''password'', ''status''] user;
                      tokens = createTokens ev user;
                      options = \<lparr>httpOnly = True, secure = (environment ev = ''production'')\<rparr>
                  in (Inr \<lparr>cookies =
                             [SetCookie ''accessToken'' (getprop tokens ''accessToken'') options,
                              SetCookie ''refreshToken'' (getprop tokens ''refreshToken'') options],
                           sent = SuccessResponse ''Login successful''
                             (JObject [(''user'', JObject filteredUser),
                                       (''tokens'', JObject tokens)])\<rparr>,
                      st1))))"

section \<open>logout\<close>

text \<open>The handler reads nothing of the request and nothing of the datastore.\<close>

definition logout :: "env \<Rightarrow> 'req \<Rightarrow> store \<Rightarrow> (ApiError + res) \<times> store" where
  "logout ev req st =
     (let options = \<lparr>httpOnly = True, secure = (environment ev = ''production'')\<rparr>
      in (Inr \<lparr>cookies = [ClearCookie ''accessToken'' options,
                          ClearCookie ''refreshToken'' options],
               sent = SuccessResponse ''Logout successful'' (JObject [])\<rparr>,
          st))"

text \<open>
  The credentials a client holds are its cookies. A response changes them by its cookie
  operations, in order: \<^verbatim>\<open>res.cookie\<close> stores a value under a name,
  \<^verbatim>\<open>res.clearCookie\<close> removes the name. An error response carries none.
\<close>

fun apply_cookie :: "cookie_op \<Rightarrow> (string \<rightharpoonup> jsval) \<Rightarrow> (string \<rightharpoonup> jsval)" where
  "apply_cookie (SetCookie n v _) jar = jar(n \<mapsto> v)"
| "apply_cookie (ClearCookie n _) jar = jar(n := None)"

definition client_after :: "(ApiError + res) \<Rightarrow> (string \<rightharpoonup> jsval) \<Rightarrow> (string \<rightharpoonup> jsval)" where
  "client_after out jar =
     (case out of Inl _ \<Rightarrow> jar | Inr r \<Rightarrow> fold apply_cookie (cookies r) jar)"

section \<open>The rate limiter\<close>

text \<open>
  A request as the limiter sees it: the time it arrives, in milliseconds, and what
  \<^verbatim>\<open>requestIp.getClientIp(req)\<close> returns for it, an address or \<^verbatim>\<open>null\<close>.
\<close>

record request =
  time :: nat
  clientIp :: "string option"

text \<open>Line 37: \<^verbatim>\<open>requestIp.getClientIp(req) || ""\<close>; the empty string is falsy too.\<close>

definition keyGenerator :: "request \<Rightarrow> string" where
  "keyGenerator req =
     (case clientIp req of None \<Rightarrow> [] | Some ip \<Rightarrow> if ip = [] then [] else ip)"

text \<open>Lines 33 and 34: the options the source passes to \<^verbatim>\<open>rateLimit\<close>.\<close>

record rate_options =
  windowMs :: nat
  max_opt :: nat

definition limiter_options :: rate_options where
  "limiter_options = \<lparr>windowMs = 1 * 60 * 1000, max_opt = 200\<rparr>"

text \<open>
  Lines 38 to 46, the handler of a refused request: it passes a \<^verbatim>\<open>RateLimitError\<close>
  on. The quotient \<^verbatim>\<open>options.windowMs / 60000\<close> is exact for the configured window.
\<close>

definition handler :: "rate_options \<Rightarrow> ApiError" where
  "handler options =
     RateLimitError
       (''You exceeded the request limit. Allowed '' @ show_nat (max_opt options)
          @ '' requests per '' @ show_nat (windowMs options div 60000) @ '' minute.'')"

text \<open>
  The window counter itself is the \<^verbatim>\<open>express-rate-limit\<close> package, which is not
  among the source files. The spec describes it as a fixed window counter keyed by the
  client's address, configured by the window's duration and the request cap.
\<close>

record client =
  totalHits :: nat
  resetTime :: nat

text \<open>
  Modelled from the spec: the counter of the rate limiter, missing from the sources. Every
  key has the count of the requests of its current window and the time at which that
  window ends; a request whose window has ended starts a new one; every request is
  counted.
\<close>

definition increment ::
  "rate_options \<Rightarrow> nat \<Rightarrow> string \<Rightarrow> (string \<rightharpoonup> client) \<Rightarrow> client \<times> (string \<rightharpoonup> client)" where
  "increment options now key hits =
     (let fresh = \<lparr>totalHits = 0, resetTime = now + windowMs options\<rparr>;
          c0 = (case hits key of
                  None \<Rightarrow> fresh
                | Some c \<Rightarrow> if resetTime c \<le> now then fresh else c);
          c = c0\<lparr>totalHits := totalHits c0 + 1\<rparr>
      in (c, hits(key \<mapsto> c)))"

text \<open>
  Modelled from the spec: the check of the rate limiter, missing from the sources, with
  the key generator, the options and the handler that the source configures (lines 32 to
  47). A request is refused, through the handler, when its count exceeds the cap.
\<close>

definition limiter ::
  "request \<Rightarrow> (string \<rightharpoonup> client) \<Rightarrow> (ApiError + unit) \<times> (string \<rightharpoonup> client)" where
  "limiter req hits =
     (let (c, hits') = increment limiter_options (time req) (keyGenerator req) hits
      in if totalHits c > max_opt limiter_options
         then (Inl (handler limiter_options), hits')
         else (Inr (), hits'))"

text \<open>\<^verbatim>\<open>app.use(limiter)\<close>: every request passes the limiter, in the order of arrival.\<close>

fun serve :: "request list \<Rightarrow> (string \<rightharpoonup> client) \<Rightarrow> (ApiError + unit) list" where
  "serve [] hits = []"
| "serve (r # rs) hits = (let (out, hits') = limiter r hits in out # serve rs hits')"

text \<open>
  The number of a request among those of its own key: \<open>ordinal rs i\<close> is \<open>n\<close> when the
  request at position \<open>i\<close> is the \<open>n\<close>-th of its key.
\<close>

definition ordinal :: "request list \<Rightarrow> nat \<Rightarrow> nat" where
  "ordinal rs i =
     length (filter (\<lambda>r. keyGenerator r = keyGenerator (rs ! i)) (take (Suc i) rs))"

section \<open>Sample data\<close>

text \<open>
  An environment, a datastore and requests to run the handlers on. The sample
  \<^verbatim>\<open>bcrypt\<close> only marks the plaintext: the theorems below hold for every environment.
\<close>

definition sample_env :: env where
  "sample_env =
     \<lparr>bcrypt_hash = (\<lambda>p c. ''$2b$'' @ show_nat c @ ''$'' @ p),
      bcrypt_compare = (\<lambda>p d. d = JString (''$2b$10$'' @ p)),
      Math_random = \<lparr>mant = 0, expo = 0\<rparr>,
      createTokens = (\<lambda>u. [(''accessToken'', JString ''a-token''),
                           (''refreshToken'', JString ''r-token'')]),
      filterUserData = (\<lambda>u. JObject (rest_without [''password''] u)),
      RoleCode_USER = ''USER'',
      environment = ''production''\<rparr>"

definition alice :: obj where
  "alice =
     [(''username'', JString ''alice''),
      (''email'', JString ''alice@example.com''),
      (''password'', JString ''$2b$10$wonderland''),
      (''avatarUrl'',
         JString ''https://imageserver-1-466g.onrender.com/static/avatars/avatar07.avif''),
      (''status'', JBoolean True),
      (''role'', JString ''USER'')]"

definition sample_store :: store where
  "sample_store = \<lparr>users = [alice], calls = []\<rparr>"

text \<open>
  Requests of one window: one of a first address, then 201 of a second. And a mixed
  stream: a request with an address, 200 requests for which no address is found, a second
  request of the first address, and one more request without an address.
\<close>

definition sample_requests :: "request list" where
  "sample_requests =
     \<lparr>time = 0, clientIp = Some ''10.0.0.2''\<rparr>
       # replicate 201 \<lparr>time = 1000, clientIp = Some ''10.0.0.1''\<rparr>"

definition sample_mixed :: "request list" where
  "sample_mixed =
     \<lparr>time = 0, clientIp = Some ''10.0.0.2''\<rparr>
       # replicate 200 \<lparr>time = 1000, clientIp = None\<rparr>
       @ [\<lparr>time = 2000, clientIp = Some ''10.0.0.2''\<rparr>, \<lparr>time = 3000, clientIp = None\<rparr>]"

section \<open>login: which failure is reported\<close>

text \<open>
  C1, as stated, says that a login whose identifier matches no user and a login whose
  password does not verify fail with the same error. They do not: the first is refused
  at line 61 with a \<^verbatim>\<open>BadRequestError\<close>, the second at line 66 with an
  \<^verbatim>\<open>AuthFailureError\<close>, each with a message of its own.
\<close>

theorem login_errors_differ_counterexample:
  "fst (login sample_env \<lparr>userId = ''nobody'', password = Some ''wonderland''\<rparr> sample_store)
     = Inl (BadRequestError ''Invalid email/username'')
   \<and> fst (login sample_env \<lparr>userId = ''alice'', password = Some ''rabbit''\<rparr> sample_store)
     = Inl (AuthFailureError ''Invalid credentials'')
   \<and> fst (login sample_env \<lparr>userId = ''nobody'', password = Some ''wonderland''\<rparr> sample_store)
     \<noteq> fst (login sample_env \<lparr>userId = ''alice'', password = Some ''rabbit''\<rparr> sample_store)"
  by (simp add: login_def findByEmailOrUsername_def sample_store_def sample_env_def alice_def
      getprop_def)

text \<open>
  C1, amended: when a non-empty password is supplied, a login whose identifier matches no
  user fails with \<^verbatim>\<open>BadRequestError("Invalid email/username")\<close>, and a login whose
  identifier matches a user whose password does not verify fails with
  \<^verbatim>\<open>AuthFailureError("Invalid credentials")\<close>.
\<close>

theorem login_failures_distinguished:
  assumes "login_body.password body = Some pw" and "pw \<noteq> []"
  shows "(fst (findByEmailOrUsername (userId body) st) = None \<longrightarrow>
            fst (login ev body st) = Inl (BadRequestError ''Invalid email/username''))
       \<and> (\<forall>u. fst (findByEmailOrUsername (userId body) st) = Some u
               \<and> \<not> bcrypt_compare ev pw (getprop u ''password'') \<longrightarrow>
            fst (login ev body st) = Inl (AuthFailureError ''Invalid credentials''))"
  using assms by (auto simp: login_def split: prod.splits option.splits)

theorem login_failures_distinguished_witness:
  "fst (login sample_env \<lparr>userId = ''nobody'', password = Some ''wonderland''\<rparr> sample_store)
     = Inl (BadRequestError ''Invalid email/username'')
   \<and> fst (login sample_env \<lparr>userId = ''alice@example.com'', password = Some ''rabbit''\<rparr> sample_store)
     = Inl (AuthFailureError ''Invalid credentials'')"
  using login_failures_distinguished
      [where body = "\<lparr>userId = ''nobody'', password = Some ''wonderland''\<rparr>"
         and pw = "''wonderland''" and st = sample_store and ev = sample_env]
    login_failures_distinguished
      [where body = "\<lparr>userId = ''alice@example.com'', password = Some ''rabbit''\<rparr>"
         and pw = "''rabbit''" and st = sample_store and ev = sample_env]
  by (simp add: findByEmailOrUsername_def sample_store_def sample_env_def alice_def getprop_def)

text \<open>
  C3, as stated, says that a login without a password fails with the missing-credentials
  error whether or not the identifier matches a user. The lookup comes first (lines 60
  and 61): without a match the failure is the one of the lookup.
\<close>

theorem login_no_password_counterexample:
  "fst (login sample_env \<lparr>userId = ''nobody'', password = None\<rparr> sample_store)
     = Inl (BadRequestError ''Invalid email/username'')
   \<and> fst (login sample_env \<lparr>userId = ''nobody'', password = None\<rparr> sample_store)
     \<noteq> Inl (BadRequestError ''No credentials provided'')"
  by (simp add: login_def findByEmailOrUsername_def sample_store_def alice_def getprop_def)

text \<open>
  C3, amended: a login without a password (absent, or the empty string) fails with
  \<^verbatim>\<open>BadRequestError("No credentials provided")\<close> when the identifier matches a user,
  and with \<^verbatim>\<open>BadRequestError("Invalid email/username")\<close> when it matches none.
\<close>

theorem login_no_password:
  assumes "login_body.password body = None \<or> login_body.password body = Some []"
  shows "fst (login ev body st) =
           (if fst (findByEmailOrUsername (userId body) st) = None
            then Inl (BadRequestError ''Invalid email/username'')
            else Inl (BadRequestError ''No credentials provided''))"
  using assms by (auto simp: login_def split: prod.splits option.splits)

theorem login_no_password_witness:
  "fst (login sample_env \<lparr>userId = ''alice'', password = None\<rparr> sample_store)
     = Inl (BadRequestError ''No credentials provided'')
   \<and> fst (login sample_env \<lparr>userId = ''alice'', password = Some []\<rparr> sample_store)
     = Inl (BadRequestError ''No credentials provided'')"
  using login_no_password [where body = "\<lparr>userId = ''alice'', password = None\<rparr>"
      and st = sample_store and ev = sample_env]
    login_no_password [where body = "\<lparr>userId = ''alice'', password = Some []\<rparr>"
      and st = sample_store and ev = sample_env]
  by (simp add: findByEmailOrUsername_def sample_store_def alice_def getprop_def)

section \<open>login: the user returned\<close>

lemma rest_without_has_prop: "k \<in> set ks \<Longrightarrow> \<not> has_prop (rest_without ks ob) k"
  by (auto simp: has_prop_def rest_without_def)

text \<open>
  C6: the user object that a successful login sends back has no \<^verbatim>\<open>password\<close>
  property.
\<close>

theorem login_strips_password:
  assumes "fst (login ev body st) = Inr r"
  shows "\<exists>u tokens. sent r = SuccessResponse ''Login successful''
                        (JObject [(''user'', JObject u), (''tokens'', JObject tokens)])
           \<and> \<not> has_prop u ''password''"
  using assms
  by (auto simp: login_def Let_def rest_without_has_prop split: prod.splits option.splits if_splits)

theorem login_strips_password_witness:
  "fst (login sample_env \<lparr>userId = ''alice'', password = Some ''wonderland''\<rparr> sample_store)
     = Inr \<lparr>cookies =
             [SetCookie ''accessToken'' (JString ''a-token'') \<lparr>httpOnly = True, secure = True\<rparr>,
              SetCookie ''refreshToken'' (JString ''r-token'') \<lparr>httpOnly = True, secure = True\<rparr>],
           sent = SuccessResponse ''Login successful''
             (JObject [(''user'', JObject
                 [(''username'', JString ''alice''),
                  (''email'', JString ''alice@example.com''),
                  (''avatarUrl'',
                     JString ''https://imageserver-1-466g.onrender.com/static/avatars/avatar07.avif''),
                  (''role'', JString ''USER'')]),
               (''tokens'', JObject [(''accessToken'', JString ''a-token''),
                                     (''refreshToken'', JString ''r-token'')])])\<rparr>
   \<and> (\<exists>u tokens.
         sent (projr (fst (login sample_env \<lparr>userId = ''alice'', password = Some ''wonderland''\<rparr>
                 sample_store)))
           = SuccessResponse ''Login successful''
               (JObject [(''user'', JObject u), (''tokens'', JObject tokens)])
         \<and> \<not> has_prop u ''password'')"
proof -
  have run: "fst (login sample_env \<lparr>userId = ''alice'', password = Some ''wonderland''\<rparr> sample_store)
     = Inr \<lparr>cookies =
             [SetCookie ''accessToken'' (JString ''a-token'') \<lparr>httpOnly = True, secure = True\<rparr>,
              SetCookie ''refreshToken'' (JString ''r-token'') \<lparr>httpOnly = True, secure = True\<rparr>],
           sent = SuccessResponse ''Login successful''
             (JObject [(''user'', JObject
                 [(''username'', JString ''alice''),
                  (''email'', JString ''alice@example.com''),
                  (''avatarUrl'',
                     JString ''https://imageserver-1-466g.onrender.com/static/avatars/avatar07.avif''),
                  (''role'', JString ''USER'')]),
               (''tokens'', JObject [(''accessToken'', JString ''a-token''),
                                     (''refreshToken'', JString ''r-token'')])])\<rparr>"
    by (simp add: login_def findByEmailOrUsername_def sample_store_def sample_env_def alice_def
        getprop_def rest_without_def Let_def)
  from login_strips_password [OF run] run show ?thesis by simp
qed

section \<open>signUp: duplicates\<close>

lemma find_Some_ex: "(\<exists>x\<in>set xs. P x) \<Longrightarrow> \<exists>y. find P xs = Some y"
  by (cases "find P xs") (auto simp: find_None_iff)

text \<open>
  C2: a signup whose email or username is that of a stored user fails with a
  \<^verbatim>\<open>BadRequestError\<close>, "Email already exists" or "Username already exists", and the
  stored users are the same afterwards.
\<close>

theorem signUp_duplicate_rejected:
  assumes "\<exists>u\<in>set (users st). getprop u ''email'' = JString (email body)
                             \<or> getprop u ''username'' = JString (username body)"
  shows "(fst (signUp ev body st) = Inl (BadRequestError ''Email already exists'')
          \<or> fst (signUp ev body st) = Inl (BadRequestError ''Username already exists''))
       \<and> users (snd (signUp ev body st)) = users st"
proof (cases "find (\<lambda>u. getprop u ''email'' = JString (email body)) (users st)")
  case (Some u)
  then show ?thesis
    by (simp add: signUp_def findByEmail_def)
next
  case None
  then have "\<exists>u\<in>set (users st). getprop u ''username'' = JString (username body)"
    using assms by (auto simp: find_None_iff)
  then obtain v where "find (\<lambda>u. getprop u ''username'' = JString (username body)) (users st) = Some v"
    using find_Some_ex by fastforce
  with None show ?thesis
    by (simp add: signUp_def findByEmail_def findByUsername_def)
qed

theorem signUp_duplicate_rejected_witness:
  "fst (signUp sample_env
         \<lparr>email = ''alice@example.com'', username = ''alice2'', password = ''secret''\<rparr> sample_store)
     = Inl (BadRequestError ''Email already exists'')
   \<and> fst (signUp sample_env
         \<lparr>email = ''other@example.com'', username = ''alice'', password = ''secret''\<rparr> sample_store)
     = Inl (BadRequestError ''Username already exists'')
   \<and> users (snd (signUp sample_env
         \<lparr>email = ''other@example.com'', username = ''alice'', password = ''secret''\<rparr> sample_store))
     = [alice]"
proof -
  have e: "fst (signUp sample_env
         \<lparr>email = ''alice@example.com'', username = ''alice2'', password = ''secret''\<rparr> sample_store)
     = Inl (BadRequestError ''Email already exists'')"
    by (simp add: signUp_def findByEmail_def sample_store_def alice_def getprop_def)
  have n: "fst (signUp sample_env
         \<lparr>email = ''other@example.com'', username = ''alice'', password = ''secret''\<rparr> sample_store)
     = Inl (BadRequestError ''Username already exists'')"
    by (simp add: signUp_def findByEmail_def findByUsername_def sample_store_def alice_def
        getprop_def)
  have "users (snd (signUp sample_env
         \<lparr>email = ''other@example.com'', username = ''alice'', password = ''secret''\<rparr> sample_store))
     = users sample_store"
    using signUp_duplicate_rejected
      [where st = sample_store and ev = sample_env
         and body = "\<lparr>email = ''other@example.com'', username = ''alice'', password = ''secret''\<rparr>"]
    by (simp add: sample_store_def alice_def getprop_def)
  with e n show ?thesis by (simp add: sample_store_def)
qed

text \<open>
  C10: the email is looked up first. When it is that of a stored user (whether or not the
  username is taken as well), the failure is "Email already exists" and the only call the
  repository received is the lookup by email: \<^verbatim>\<open>findByUsername\<close> is not reached.
\<close>

theorem signUp_email_checked_first:
  assumes "\<exists>u\<in>set (users st). getprop u ''email'' = JString (email body)"
  shows "fst (signUp ev body st) = Inl (BadRequestError ''Email already exists'')
       \<and> calls (snd (signUp ev body st)) = calls st @ [FindByEmail (email body)]"
proof -
  obtain u where "find (\<lambda>u. getprop u ''email'' = JString (email body)) (users st) = Some u"
    using find_Some_ex assms by fastforce
  then show ?thesis
    by (simp add: signUp_def findByEmail_def)
qed

theorem signUp_email_checked_first_witness:
  "fst (signUp sample_env
         \<lparr>email = ''alice@example.com'', username = ''alice'', password = ''secret''\<rparr> sample_store)
     = Inl (BadRequestError ''Email already exists'')
   \<and> calls (snd (signUp sample_env
         \<lparr>email = ''alice@example.com'', username = ''alice'', password = ''secret''\<rparr> sample_store))
     = [FindByEmail ''alice@example.com'']"
  using signUp_email_checked_first
      [where st = sample_store and ev = sample_env
         and body = "\<lparr>email = ''alice@example.com'', username = ''alice'', password = ''secret''\<rparr>"]
  by (simp add: sample_store_def alice_def getprop_def)

section \<open>signUp: the avatar\<close>

lemma excess_le: "M < 2 ^ (53 + n) \<Longrightarrow> excess M \<le> n"
proof (induction n arbitrary: M)
  case 0
  then show ?case by (simp add: excess.simps)
next
  case (Suc n)
  have "(2::nat) ^ (53 + Suc n) = 2 ^ (53 + n) * 2"
    by (metis add_Suc_right power_Suc mult.commute)
  then have "M < 2 ^ (53 + n) * 2"
    using Suc.prems by (simp only:)
  then have "M div 2 < 2 ^ (53 + n)"
    by (rule less_mult_imp_div_less)
  then have "excess (M div 2) \<le> n" by (rule Suc.IH)
  then show ?case by (subst excess.simps) simp
qed

text \<open>Rounding moves a mantissa by at most half a unit of the last place kept.\<close>

lemma round_even_le: "round_even M s * 2 ^ s \<le> M + 2 ^ s div 2"
proof -
  let ?q = "M div 2 ^ s" and ?r = "M mod 2 ^ s"
  have M: "?q * 2 ^ s + ?r = M" by (rule div_mult_mod_eq)
  show ?thesis
  proof (cases "2 ^ s < 2 * ?r \<or> (2 * ?r = 2 ^ s \<and> odd ?q)")
    case False
    then have "round_even M s = ?q" by (simp add: round_even_def Let_def)
    then show ?thesis using M by (metis le_add1 trans_le_add1)
  next
    case True
    then have r: "round_even M s = ?q + 1" by (simp add: round_even_def Let_def)
    from True have "2 ^ s \<le> 2 * ?r" by auto
    then have "(2::nat) ^ s - 2 ^ s div 2 \<le> ?r" by simp
    moreover have "(?q + 1) * 2 ^ s = ?q * 2 ^ s + 2 ^ s" by (simp add: algebra_simps)
    ultimately have "(?q + 1) * 2 ^ s \<le> ?q * 2 ^ s + ?r + 2 ^ s div 2"
      by linarith
    then show ?thesis using r M by simp
  qed
qed

lemma round_even_ge: "M \<le> round_even M s * 2 ^ s + 2 ^ s div 2"
proof -
  let ?q = "M div 2 ^ s" and ?r = "M mod 2 ^ s"
  have M: "?q * 2 ^ s + ?r = M" by (rule div_mult_mod_eq)
  have lt: "?r < 2 ^ s" by simp
  show ?thesis
  proof (cases "2 ^ s < 2 * ?r \<or> (2 * ?r = 2 ^ s \<and> odd ?q)")
    case False
    then have r: "round_even M s = ?q" by (simp add: round_even_def Let_def)
    from False have "2 * ?r \<le> 2 ^ s" by auto
    then have "?r \<le> 2 ^ s div 2" by simp
    then have "?q * 2 ^ s + ?r \<le> ?q * 2 ^ s + 2 ^ s div 2" by simp
    then show ?thesis unfolding r M .
  next
    case True
    then have r: "round_even M s = ?q + 1" by (simp add: round_even_def Let_def)
    have "(?q + 1) * 2 ^ s = ?q * 2 ^ s + 2 ^ s" by (simp add: algebra_simps)
    with lt have "?q * 2 ^ s + ?r \<le> (?q + 1) * 2 ^ s" by linarith
    then have "M \<le> (?q + 1) * 2 ^ s" unfolding M .
    then show ?thesis unfolding r by (rule trans_le_add1)
  qed
qed

text \<open>
  The binary64 product of 23 and a number below one has a floor below 23: the exact
  product is at least \<open>23 * 2 ^ e\<close> below 23, and rounding raises it by less than that.
\<close>

lemma floor64_times23_less:
  assumes "mant d < 2 ^ 53" and "below_one d"
  shows "floor64 (times23 d) < 23"
proof (cases "0 \<le> expo d")
  case True
  with assms(2) have "mant d = 0" by (simp add: below_one_def)
  then show ?thesis
    by (simp add: times23_def floor64_def round_even_def excess.simps Let_def)
next
  case False
  define k where "k = nat (- expo d)"
  define M where "M = mant d * 23"
  define s where "s = excess M"
  define Q where "Q = round_even M s"
  have e: "expo d = - int k" using False by (simp add: k_def)
  have "mant d < 2 ^ k" using assms(2) False by (simp add: below_one_def k_def)
  then have "mant d + 1 \<le> 2 ^ k" by simp
  then have "(mant d + 1) * 23 \<le> 2 ^ k * 23" by (rule mult_le_mono1)
  then have Mk: "M + 23 \<le> 23 * 2 ^ k" by (simp add: M_def algebra_simps)
  have "M < 2 ^ (53 + 5)" using assms(1) by (simp add: M_def)
  then have s5: "s \<le> 5" unfolding s_def by (rule excess_le)
  then have "(2::nat) ^ s \<le> 2 ^ 5" by (rule power_increasing) simp
  then have "(2::nat) ^ s div 2 \<le> 16" by simp
  with round_even_le [of M s] have "Q * 2 ^ s \<le> M + 16" by (simp add: Q_def)
  with Mk have Qk: "Q * 2 ^ s < 23 * 2 ^ k" by simp
  have t: "times23 d = \<lparr>mant = Q, expo = int s - int k\<rparr>"
    by (simp add: times23_def Q_def s_def M_def e)
  show ?thesis
  proof (cases "k \<le> s")
    case True
    then have fl: "floor64 (times23 d) = Q * 2 ^ (s - k)"
      by (simp add: t floor64_def nat_diff_distrib')
    have "(2::nat) ^ (s - k) * 2 ^ k = 2 ^ s"
      using True by (simp add: power_add [symmetric])
    then have eq: "Q * 2 ^ (s - k) * 2 ^ k = Q * 2 ^ s"
      by (simp only: mult.assoc)
    have "Q * 2 ^ (s - k) * 2 ^ k < 23 * 2 ^ k"
      unfolding eq by (rule Qk)
    then have "Q * 2 ^ (s - k) < 23" by (metis mult_less_cancel2)
    then show ?thesis by (simp only: fl)
  next
    case False
    then have fl: "floor64 (times23 d) = Q div 2 ^ (k - s)"
      by (simp add: t floor64_def nat_diff_distrib')
    have "(2::nat) ^ (k - s) * 2 ^ s = 2 ^ k"
      using False by (simp add: power_add [symmetric])
    then have eq: "(23::nat) * 2 ^ (k - s) * 2 ^ s = 23 * 2 ^ k"
      by (simp only: mult.assoc)
    have "Q * 2 ^ s < 23 * 2 ^ (k - s) * 2 ^ s"
      unfolding eq by (rule Qk)
    then have "Q < 23 * 2 ^ (k - s)" by (metis mult_less_cancel2)
    then have "Q div 2 ^ (k - s) < 23" by (rule less_mult_imp_div_less)
    then show ?thesis by (simp only: fl)
  qed
qed

lemma avatarNumber_bounds:
  assumes "is_float64 d" and "below_one d"
  shows "1 \<le> avatarNumber d" and "avatarNumber d \<le> 23"
  using floor64_times23_less [of d] assms by (simp_all add: avatarNumber_def is_float64_def)

text \<open>
  The product is rounded as binary64 rounds it: for the draw \<open>1566469435607129 / 2 ^ 52\<close>,
  just below \<open>8 / 23\<close>, the exact product is \<open>8 - 1 / 2 ^ 52\<close>, the binary64 product is 8,
  and the avatar number is 9.
\<close>

lemma avatarNumber_rounded_product:
  "avatarNumber \<lparr>mant = 1566469435607129, expo = - 52\<rparr> = 9"
  by (simp add: avatarNumber_def times23_def floor64_def round_even_def excess.simps Let_def)

lemma show_nat_two_digits:
  assumes "10 \<le> n" and "n < 100"
  shows "show_nat n = [digit (n div 10), digit (n mod 10)]"
proof -
  have "n div 10 < 10" using assms by simp
  then have "show_nat (n div 10) = [digit (n div 10)]"
    by (simp add: show_nat.simps)
  with assms show ?thesis
    by (subst show_nat.simps) simp
qed

lemma formattedNumber_two_digits:
  assumes "1 \<le> n" and "n \<le> 23"
  shows "formattedNumber n = [digit (n div 10), digit (n mod 10)]"
proof (cases "n < 10")
  case True
  then have "show_nat n = [digit n]" "n div 10 = 0" "n mod 10 = n"
    by (simp_all add: show_nat.simps)
  with True show ?thesis
    by (simp add: formattedNumber_def digit_def)
next
  case False
  with assms have "10 \<le> n" "n < 100" by simp_all
  from show_nat_two_digits [OF this] False show ?thesis
    by (simp add: formattedNumber_def)
qed

lemma avatarUrl_half:
  "avatarUrl \<lparr>mant = 4503599627370496, expo = - 53\<rparr> =
     ''https://imageserver-1-466g.onrender.com/static/avatars/avatar12.avif''"
  by (simp add: avatarUrl_def avatarNumber_def times23_def floor64_def round_even_def
      excess.simps formattedNumber_def show_nat.simps digit_def Let_def)

lemma avatarUrl_zero:
  "avatarUrl \<lparr>mant = 0, expo = 0\<rparr> =
     ''https://imageserver-1-466g.onrender.com/static/avatars/avatar01.avif''"
  by (simp add: avatarUrl_def avatarNumber_def times23_def floor64_def round_even_def
      excess.simps formattedNumber_def show_nat.simps digit_def Let_def)

text \<open>
  C4, as stated, says that two signups with the same inputs on the same prior state get
  the same avatar. The avatar number comes from \<^verbatim>\<open>Math.random()\<close> (line 32): the
  same signup on the same datastore gets avatar 01 when the draw is 0 and avatar 12 when
  it is 0.5.
\<close>

theorem signUp_avatar_counterexample:
  "getprop (last (users (snd (signUp sample_env
       \<lparr>email = ''bob@example.com'', username = ''bob'', password = ''secret''\<rparr> sample_store))))
     ''avatarUrl''
     = JString ''https://imageserver-1-466g.onrender.com/static/avatars/avatar01.avif''
   \<and> getprop (last (users (snd (signUp (sample_env\<lparr>Math_random := \<lparr>mant = 4503599627370496, expo = - 53\<rparr>\<rparr>)
       \<lparr>email = ''bob@example.com'', username = ''bob'', password = ''secret''\<rparr> sample_store))))
     ''avatarUrl''
     = JString ''https://imageserver-1-466g.onrender.com/static/avatars/avatar12.avif''"
  by (simp add: signUp_def findByEmail_def findByUsername_def create_def sample_store_def
      sample_env_def alice_def getprop_def avatarUrl_half avatarUrl_zero Let_def)

text \<open>
  C4, amended: the avatar is not fixed by the inputs and the prior state, it is drawn
  with \<^verbatim>\<open>Math.random()\<close>; whatever the draw, the avatar reference of the created user
  is the one with a two-digit, zero-padded number between 01 and 23.
\<close>

theorem signUp_avatar_by_draw:
  assumes "is_float64 (Math_random ev)" and "below_one (Math_random ev)"
    and "fst (signUp ev body st) = Inr r"
  shows "\<exists>user n. users (snd (signUp ev body st)) = users st @ [user]
           \<and> 1 \<le> n \<and> n \<le> 23
           \<and> getprop user ''avatarUrl'' =
               JString (''https://imageserver-1-466g.onrender.com/static/avatars/avatar''
                          @ [digit (n div 10), digit (n mod 10)] @ ''.avif'')"
proof -
  let ?n = "avatarNumber (Math_random ev)"
  let ?user = "[(''username'', JString (username body)), (''email'', JString (email body)),
                (''password'', JString (bcrypt_hash ev (signup_body.password body) 10)),
                (''avatarUrl'', JString (avatarUrl (Math_random ev))),
                (''role'', JString (RoleCode_USER ev))]"
  have b: "1 \<le> ?n" "?n \<le> 23"
    using avatarNumber_bounds assms(1,2) by simp_all
  have u: "users (snd (signUp ev body st)) = users st @ [?user]"
    using assms(3)
    by (auto simp: signUp_def findByEmail_def findByUsername_def create_def Let_def
        split: option.splits)
  have a: "getprop ?user ''avatarUrl'' = JString (avatarUrl (Math_random ev))"
    by (simp add: getprop_def)
  have f: "avatarUrl (Math_random ev) =
             ''https://imageserver-1-466g.onrender.com/static/avatars/avatar''
               @ [digit (?n div 10), digit (?n mod 10)] @ ''.avif''"
    unfolding avatarUrl_def formattedNumber_two_digits [OF b] ..
  show ?thesis
    using u a f b by (intro exI [of _ ?user] exI [of _ ?n]) simp
qed

theorem signUp_avatar_by_draw_witness:
  "users (snd (signUp (sample_env\<lparr>Math_random := \<lparr>mant = 4503599627370496, expo = - 53\<rparr>\<rparr>)
       \<lparr>email = ''bob@example.com'', username = ''bob'', password = ''secret''\<rparr> sample_store))
     = [alice,
        [(''username'', JString ''bob''), (''email'', JString ''bob@example.com''),
         (''password'', JString ''$2b$10$secret''),
         (''avatarUrl'',
            JString ''https://imageserver-1-466g.onrender.com/static/avatars/avatar12.avif''),
         (''role'', JString ''USER'')]]
   \<and> (\<exists>user n. users (snd (signUp (sample_env\<lparr>Math_random := \<lparr>mant = 4503599627370496, expo = - 53\<rparr>\<rparr>)
         \<lparr>email = ''bob@example.com'', username = ''bob'', password = ''secret''\<rparr> sample_store))
           = users sample_store @ [user]
         \<and> 1 \<le> n \<and> n \<le> 23
         \<and> getprop user ''avatarUrl'' =
             JString (''https://imageserver-1-466g.onrender.com/static/avatars/avatar''
                        @ [digit (n div 10), digit (n mod 10)] @ ''.avif''))"
proof -
  have run: "signUp (sample_env\<lparr>Math_random := \<lparr>mant = 4503599627370496, expo = - 53\<rparr>\<rparr>)
       \<lparr>email = ''bob@example.com'', username = ''bob'', password = ''secret''\<rparr> sample_store
     = (Inr \<lparr>cookies = [],
             sent = SuccessResponse ''Signup successful''
               (JObject [(''user'', JObject
                   [(''username'', JString ''bob''), (''email'', JString ''bob@example.com''),
                    (''avatarUrl'',
                       JString ''https://imageserver-1-466g.onrender.com/static/avatars/avatar12.avif''),
                    (''role'', JString ''USER'')]),
                 (''tokens'', JObject [(''accessToken'', JString ''a-token''),
                                       (''refreshToken'', JString ''r-token'')])])\<rparr>,
        \<lparr>users = [alice,
           [(''username'', JString ''bob''), (''email'', JString ''bob@example.com''),
            (''password'', JString ''$2b$10$secret''),
            (''avatarUrl'',
               JString ''https://imageserver-1-466g.onrender.com/static/avatars/avatar12.avif''),
            (''role'', JString ''USER'')]],
          calls = [FindByEmail ''bob@example.com'', FindByUsername ''bob'',
                   Create [(''username'', JString ''bob''), (''email'', JString ''bob@example.com''),
                           (''password'', JString ''$2b$10$secret''),
                           (''avatarUrl'',
                              JString ''https://imageserver-1-466g.onrender.com/static/avatars/avatar12.avif'')]
                     ''USER'']\<rparr>)"
    by (simp add: signUp_def findByEmail_def findByUsername_def create_def sample_store_def
        sample_env_def alice_def getprop_def avatarUrl_half show_nat.simps digit_def Let_def
        rest_without_def)
  have d: "is_float64 (Math_random (sample_env\<lparr>Math_random := \<lparr>mant = 4503599627370496, expo = - 53\<rparr>\<rparr>))"
    "below_one (Math_random (sample_env\<lparr>Math_random := \<lparr>mant = 4503599627370496, expo = - 53\<rparr>\<rparr>))"
    by (simp_all add: is_float64_def below_one_def)
  from signUp_avatar_by_draw [OF d, of "\<lparr>email = ''bob@example.com'', username = ''bob'', password = ''secret''\<rparr>" sample_store] run
  show ?thesis by simp
qed

section \<open>logout\<close>

text \<open>
  C7: a second logout, right after a first, returns what the first returned, a success;
  the datastore is untouched; after the first logout the client holds neither an
  \<^verbatim>\<open>accessToken\<close> nor a \<^verbatim>\<open>refreshToken\<close> cookie, and the second leaves the
  client's cookies as the first left them.
\<close>

theorem logout_idempotent:
  "fst (logout ev req2 (snd (logout ev req1 st))) = fst (logout ev req1 st)
   \<and> (\<exists>r. fst (logout ev req2 (snd (logout ev req1 st))) = Inr r)
   \<and> snd (logout ev req2 (snd (logout ev req1 st))) = st
   \<and> client_after (fst (logout ev req1 st)) jar ''accessToken'' = None
   \<and> client_after (fst (logout ev req1 st)) jar ''refreshToken'' = None
   \<and> client_after (fst (logout ev req2 (snd (logout ev req1 st))))
        (client_after (fst (logout ev req1 st)) jar)
       = client_after (fst (logout ev req1 st)) jar"
  by (simp add: logout_def client_after_def Let_def)

section \<open>The rate limiter: counting within a window\<close>

lemma handler_configured:
  "handler limiter_options =
     RateLimitError ''You exceeded the request limit. Allowed 200 requests per 1 minute.''"
  by (simp add: handler_def limiter_options_def show_nat.simps digit_def)

lemma ordinal_Cons_0: "ordinal (r # rs) 0 = 1"
  by (simp add: ordinal_def)

lemma ordinal_Cons_Suc:
  "ordinal (r # rs) (Suc j) =
     (if keyGenerator r = keyGenerator (rs ! j) then 1 else 0) + ordinal rs j"
  by (simp add: ordinal_def)

lemma limiter_other_key: "keyGenerator r \<noteq> k \<Longrightarrow> snd (limiter r hits) k = hits k"
  by (simp add: limiter_def increment_def Let_def)

lemma limiter_new_window:
  assumes "\<forall>c. hits (keyGenerator r) = Some c \<longrightarrow> resetTime c \<le> time r"
  shows "fst (limiter r hits) = Inr ()"
    and "snd (limiter r hits) (keyGenerator r) =
           Some \<lparr>totalHits = 1, resetTime = time r + 60000\<rparr>"
  using assms
  by (auto simp: limiter_def increment_def Let_def limiter_options_def split: option.splits)

lemma limiter_same_window:
  assumes "hits (keyGenerator r) = Some c" and "time r < resetTime c"
  shows "fst (limiter r hits) =
           (if totalHits c + 1 \<le> 200 then Inr () else Inl (handler limiter_options))"
    and "snd (limiter r hits) (keyGenerator r) = Some (c\<lparr>totalHits := totalHits c + 1\<rparr>)"
  using assms
  by (auto simp: limiter_def increment_def Let_def limiter_options_def)

lemma serve_Cons_0: "serve (r # rs) hits ! 0 = fst (limiter r hits)"
  by (simp add: split_def Let_def)

lemma serve_Cons_Suc: "serve (r # rs) hits ! Suc j = serve rs (snd (limiter r hits)) ! j"
  by (simp add: split_def Let_def)

text \<open>
  The requests of one key \<open>k\<close> that arrive within one window, among the requests of any
  other keys: when the store holds \<open>n\<close> requests of the window for \<open>k\<close> (or no window
  that is still open, and \<open>n = 0\<close>), the request at position \<open>i\<close> is allowed exactly when
  \<open>n\<close> plus its number among the requests of \<open>k\<close> is at most 200.
\<close>

lemma serve_counts:
  assumes "\<forall>r\<in>set rs. keyGenerator r = k \<longrightarrow> t0 \<le> time r \<and> time r < t0 + 60000"
    and "(n = 0 \<and> (\<forall>c. hits k = Some c \<longrightarrow> resetTime c \<le> t0))
         \<or> (\<exists>c. hits k = Some c \<and> totalHits c = n \<and> t0 + 60000 \<le> resetTime c)"
    and "i < length rs" and "keyGenerator (rs ! i) = k"
  shows "serve rs hits ! i =
           (if n + ordinal rs i \<le> 200 then Inr () else Inl (handler limiter_options))"
  using assms
proof (induction rs arbitrary: hits n i)
  case Nil
  then show ?case by simp
next
  case (Cons r rs)
  have win: "\<forall>r\<in>set rs. keyGenerator r = k \<longrightarrow> t0 \<le> time r \<and> time r < t0 + 60000"
    using Cons.prems(1) by simp
  show ?case
  proof (cases "keyGenerator r = k")
    case False
    then obtain j where i: "i = Suc j"
      using Cons.prems(4) by (cases i) auto
    have st: "snd (limiter r hits) k = hits k"
      using False by (rule limiter_other_key)
    have "serve rs (snd (limiter r hits)) ! j =
            (if n + ordinal rs j \<le> 200 then Inr () else Inl (handler limiter_options))"
      using Cons.prems(2-4) i by (intro Cons.IH [OF win]) (simp_all add: st)
    moreover have "ordinal (r # rs) i = ordinal rs j"
      using False Cons.prems(4) i by (simp add: ordinal_Cons_Suc)
    ultimately show ?thesis
      by (simp only: i serve_Cons_Suc)
  next
    case True
    then have tr: "t0 \<le> time r" "time r < t0 + 60000"
      using Cons.prems(1) by simp_all
    have step: "fst (limiter r hits) =
                  (if n + 1 \<le> 200 then Inr () else Inl (handler limiter_options))
                \<and> (\<exists>c. snd (limiter r hits) k = Some c \<and> totalHits c = n + 1
                        \<and> t0 + 60000 \<le> resetTime c)"
      using Cons.prems(2)
    proof
      assume a: "n = 0 \<and> (\<forall>c. hits k = Some c \<longrightarrow> resetTime c \<le> t0)"
      then have "\<forall>c. hits (keyGenerator r) = Some c \<longrightarrow> resetTime c \<le> time r"
        using True tr(1) by auto
      from limiter_new_window [of hits r, OF this] a True tr show ?thesis by simp
    next
      assume "\<exists>c. hits k = Some c \<and> totalHits c = n \<and> t0 + 60000 \<le> resetTime c"
      then obtain c where c: "hits (keyGenerator r) = Some c" "totalHits c = n"
        "t0 + 60000 \<le> resetTime c"
        using True by auto
      then have "time r < resetTime c" using tr by simp
      from limiter_same_window [of hits r c, OF c(1) this] c True show ?thesis by simp
    qed
    show ?thesis
    proof (cases i)
      case 0
      then show ?thesis
        using step by (simp add: serve_Cons_0 ordinal_Cons_0 del: serve.simps)
    next
      case (Suc j)
      have "serve rs (snd (limiter r hits)) ! j =
              (if (n + 1) + ordinal rs j \<le> 200 then Inr () else Inl (handler limiter_options))"
        using Cons.prems(3,4) Suc step by (intro Cons.IH [OF win]) simp_all
      moreover have "ordinal (r # rs) i = 1 + ordinal rs j"
        using True Cons.prems(4) Suc by (simp add: ordinal_Cons_Suc)
      ultimately show ?thesis
        by (simp only: Suc serve_Cons_Suc add.assoc)
    qed
  qed
qed

text \<open>
  C5: with the configured options (200 requests per window of 60000 ms), among the
  requests that one address sends within one window, the 200th is allowed and the 201st
  fails with the \<^verbatim>\<open>RateLimitError\<close> of the handler, whatever the requests of other
  addresses in between.
\<close>

theorem limiter_200th_allowed_201st_refused:
  assumes "\<forall>r\<in>set rs. keyGenerator r = keyGenerator (rs ! i) \<longrightarrow>
             t0 \<le> time r \<and> time r < t0 + windowMs limiter_options"
    and "\<forall>c. hits (keyGenerator (rs ! i)) = Some c \<longrightarrow> resetTime c \<le> t0"
    and "i < length rs"
  shows "(ordinal rs i = 200 \<longrightarrow> serve rs hits ! i = Inr ())
       \<and> (ordinal rs i = 201 \<longrightarrow> serve rs hits ! i =
            Inl (RateLimitError
                   ''You exceeded the request limit. Allowed 200 requests per 1 minute.''))"
proof -
  have w: "\<forall>r\<in>set rs. keyGenerator r = keyGenerator (rs ! i) \<longrightarrow>
             t0 \<le> time r \<and> time r < t0 + 60000"
    using assms(1) by (simp add: limiter_options_def)
  have "serve rs hits ! i =
          (if 0 + ordinal rs i \<le> 200 then Inr () else Inl (handler limiter_options))"
    using assms(2,3) by (intro serve_counts [OF w]) simp_all
  then show ?thesis
    by (simp add: handler_configured)
qed

theorem limiter_200th_allowed_201st_refused_witness:
  "serve sample_requests Map.empty ! 200 = Inr ()
   \<and> serve sample_requests Map.empty ! 201 =
       Inl (RateLimitError ''You exceeded the request limit. Allowed 200 requests per 1 minute.'')"
proof -
  have k: "keyGenerator \<lparr>time = 1000, clientIp = Some ''10.0.0.1''\<rparr> = ''10.0.0.1''"
    "keyGenerator \<lparr>time = 0, clientIp = Some ''10.0.0.2''\<rparr> = ''10.0.0.2''"
    by (simp_all add: keyGenerator_def)
  have n: "sample_requests ! 200 = \<lparr>time = 1000, clientIp = Some ''10.0.0.1''\<rparr>"
    "sample_requests ! 201 = \<lparr>time = 1000, clientIp = Some ''10.0.0.1''\<rparr>"
    by (simp_all add: sample_requests_def)
  have o: "ordinal sample_requests 200 = 200" "ordinal sample_requests 201 = 201"
    unfolding ordinal_def n by (simp_all add: sample_requests_def k)
  have w: "\<forall>r\<in>set sample_requests.
             keyGenerator r = ''10.0.0.1'' \<longrightarrow>
             1000 \<le> time r \<and> time r < 1000 + windowMs limiter_options"
    by (simp add: sample_requests_def k limiter_options_def)
  have l: "200 < length sample_requests" "201 < length sample_requests"
    by (simp_all add: sample_requests_def)
  show ?thesis
    using limiter_200th_allowed_201st_refused [of sample_requests 200 1000 Map.empty]
      limiter_200th_allowed_201st_refused [of sample_requests 201 1000 Map.empty]
      w l o
    by (simp add: n k)
qed

section \<open>The rate limiter: requests without an address\<close>

lemma keyGenerator_eq: "keyGenerator r = (case clientIp r of None \<Rightarrow> [] | Some ip \<Rightarrow> ip)"
  by (simp add: keyGenerator_def split: option.splits)

lemma no_address_key:
  "((case clientIp r of None \<Rightarrow> [] | Some ip \<Rightarrow> ip) = []) =
     (clientIp r = None \<or> clientIp r = Some [])"
  by (cases "clientIp r") auto

text \<open>
  C9: the key of a request is the address that \<^verbatim>\<open>getClientIp\<close> finds for it, and the
  empty string when it finds none, and the limiter counts by that key: within one window
  a request is counted with the earlier requests of the same address, and with no other,
  and it is allowed exactly when that count is at most 200. So a request without an
  address is counted with all the requests without an address (or with an empty one),
  whoever sent them, and apart from the requests that have an address: the requests
  without an address share one counter and one budget of 200 per window.
\<close>

theorem keyGenerator_no_address_shared:
  assumes "i < length rs"
    and "\<forall>r\<in>set rs.
           (case clientIp r of None \<Rightarrow> [] | Some ip \<Rightarrow> ip)
             = (case clientIp (rs ! i) of None \<Rightarrow> [] | Some ip \<Rightarrow> ip) \<longrightarrow>
           t0 \<le> time r \<and> time r < t0 + windowMs limiter_options"
    and "\<forall>c. hits (case clientIp (rs ! i) of None \<Rightarrow> [] | Some ip \<Rightarrow> ip) = Some c \<longrightarrow>
           resetTime c \<le> t0"
  shows "keyGenerator req = (case clientIp req of None \<Rightarrow> [] | Some ip \<Rightarrow> ip)
       \<and> serve rs hits ! i =
           (if length (filter (\<lambda>r. (case clientIp r of None \<Rightarrow> [] | Some ip \<Rightarrow> ip)
                                     = (case clientIp (rs ! i) of None \<Rightarrow> [] | Some ip \<Rightarrow> ip))
                         (take (Suc i) rs)) \<le> 200
            then Inr ()
            else Inl (RateLimitError
                   ''You exceeded the request limit. Allowed 200 requests per 1 minute.''))
       \<and> (clientIp (rs ! i) = None \<longrightarrow>
            serve rs hits ! i =
              (if length (filter (\<lambda>r. clientIp r = None \<or> clientIp r = Some [])
                            (take (Suc i) rs)) \<le> 200
               then Inr ()
               else Inl (RateLimitError
                      ''You exceeded the request limit. Allowed 200 requests per 1 minute.'')))"
proof -
  let ?k = "keyGenerator (rs ! i)"
  have w: "\<forall>r\<in>set rs. keyGenerator r = ?k \<longrightarrow> t0 \<le> time r \<and> time r < t0 + 60000"
    using assms(2) by (simp add: keyGenerator_eq limiter_options_def)
  have h: "(0 = (0::nat) \<and> (\<forall>c. hits ?k = Some c \<longrightarrow> resetTime c \<le> t0))
           \<or> (\<exists>c. hits ?k = Some c \<and> totalHits c = 0 \<and> t0 + 60000 \<le> resetTime c)"
    using assms(3) by (simp add: keyGenerator_eq)
  have "serve rs hits ! i =
          (if 0 + ordinal rs i \<le> 200 then Inr () else Inl (handler limiter_options))"
    using w h assms(1) by (rule serve_counts) simp
  then have general: "serve rs hits ! i =
           (if length (filter (\<lambda>r. (case clientIp r of None \<Rightarrow> [] | Some ip \<Rightarrow> ip)
                                     = (case clientIp (rs ! i) of None \<Rightarrow> [] | Some ip \<Rightarrow> ip))
                         (take (Suc i) rs)) \<le> 200
            then Inr ()
            else Inl (RateLimitError
                   ''You exceeded the request limit. Allowed 200 requests per 1 minute.''))"
    by (simp add: handler_configured ordinal_def keyGenerator_eq)
  have "clientIp (rs ! i) = None \<longrightarrow>
            serve rs hits ! i =
              (if length (filter (\<lambda>r. clientIp r = None \<or> clientIp r = Some [])
                            (take (Suc i) rs)) \<le> 200
               then Inr ()
               else Inl (RateLimitError
                      ''You exceeded the request limit. Allowed 200 requests per 1 minute.''))"
  proof
    assume "clientIp (rs ! i) = None"
    then show "serve rs hits ! i =
              (if length (filter (\<lambda>r. clientIp r = None \<or> clientIp r = Some [])
                            (take (Suc i) rs)) \<le> 200
               then Inr ()
               else Inl (RateLimitError
                      ''You exceeded the request limit. Allowed 200 requests per 1 minute.''))"
      using general by (simp add: no_address_key)
  qed
  with general keyGenerator_eq [of req] show ?thesis by blast
qed

theorem keyGenerator_no_address_shared_witness:
  "keyGenerator \<lparr>time = 3000, clientIp = None\<rparr> = []
   \<and> serve sample_mixed Map.empty ! 200 = Inr ()
   \<and> serve sample_mixed Map.empty ! 201 = Inr ()
   \<and> serve sample_mixed Map.empty ! 202 =
       Inl (RateLimitError ''You exceeded the request limit. Allowed 200 requests per 1 minute.'')"
proof -
  have n: "sample_mixed ! 200 = \<lparr>time = 1000, clientIp = None\<rparr>"
    "sample_mixed ! 201 = \<lparr>time = 2000, clientIp = Some ''10.0.0.2''\<rparr>"
    "sample_mixed ! 202 = \<lparr>time = 3000, clientIp = None\<rparr>"
    by (simp_all add: sample_mixed_def nth_append)
  have l: "length sample_mixed = 203"
    by (simp add: sample_mixed_def)
  have w: "\<forall>r\<in>set sample_mixed. 0 \<le> time r \<and> time r < 0 + windowMs limiter_options"
    by (auto simp: sample_mixed_def limiter_options_def)
  have t: "take (Suc 200) sample_mixed =
             \<lparr>time = 0, clientIp = Some ''10.0.0.2''\<rparr>
               # replicate 200 \<lparr>time = 1000, clientIp = None\<rparr>"
    "take (Suc 201) sample_mixed =
             \<lparr>time = 0, clientIp = Some ''10.0.0.2''\<rparr>
               # replicate 200 \<lparr>time = 1000, clientIp = None\<rparr>
               @ [\<lparr>time = 2000, clientIp = Some ''10.0.0.2''\<rparr>]"
    "take (Suc 202) sample_mixed = sample_mixed"
    by (simp_all add: sample_mixed_def)
  have a: "serve sample_mixed Map.empty ! 200 = Inr ()"
    using keyGenerator_no_address_shared [of 200 sample_mixed 0 Map.empty] w
    unfolding t n by (simp add: l)
  have b: "serve sample_mixed Map.empty ! 201 = Inr ()"
    using keyGenerator_no_address_shared [of 201 sample_mixed 0 Map.empty] w
    unfolding t n by (simp add: l)
  have c: "serve sample_mixed Map.empty ! 202 =
       Inl (RateLimitError ''You exceeded the request limit. Allowed 200 requests per 1 minute.'')"
    using keyGenerator_no_address_shared [of 202 sample_mixed 0 Map.empty] w
    unfolding t n by (simp add: l sample_mixed_def)
  have k: "keyGenerator \<lparr>time = 3000, clientIp = None\<rparr> = []"
    using keyGenerator_no_address_shared
      [of 202 sample_mixed 0 Map.empty "\<lparr>time = 3000, clientIp = None\<rparr>"] w
    unfolding t n by (simp add: l)
  from a b c k show ?thesis by simp
qed

end
